theory Spec2Isabelle
  imports Main "HOL-Library.Char_ord" "HOL-Library.List_Lexorder" "HOL-Library.Sublist"
begin

section \<open>The prefixed text formatter of logrus-prefixed-formatter\<close>

text \<open>
  A shallow embedding of \<^verbatim>\<open>src/formatter.go\<close> (package \<^verbatim>\<open>prefixed\<close>). Go strings are
  byte sequences and are modelled as \<^typ>\<open>string\<close>; \<^verbatim>\<open>sort.Strings\<close> and the operators
  \<^verbatim>\<open>>=\<close>, \<^verbatim>\<open><=\<close> compare bytewise, which is the lexicographic order on \<^typ>\<open>char list\<close>.
  Whatever the file takes from other packages (\<^verbatim>\<open>fmt\<close>, \<^verbatim>\<open>time\<close>, \<^verbatim>\<open>logrus\<close>,
  \<^verbatim>\<open>ansi\<close>) is a field of the record \<open>Env\<close>, so that every function of the file is a
  function of its arguments and of that record. \<^verbatim>\<open>src/unnamed/part_000\<close> is an earlier draft
  of the same file, whose \<^verbatim>\<open>printColored\<close> takes its colors from the constants of \<^verbatim>\<open>ansi\<close>;
  the definitions below follow \<^verbatim>\<open>formatter.go\<close>.
\<close>

subsection \<open>Data\<close>

text \<open>\<^verbatim>\<open>logrus.Level\<close>, in the order of its constants.\<close>

datatype Level = PanicLevel | FatalLevel | ErrorLevel | WarnLevel | InfoLevel | DebugLevel

text \<open>
  A field value is an \<^verbatim>\<open>interface{}\<close>. The type switch of \<^verbatim>\<open>appendKeyValue\<close> tells a
  string, an error (carried here by its \<^verbatim>\<open>Error()\<close> text) and anything else apart; the nil
  interface is what a map read of an absent key gives.
\<close>

datatype 'o Value = StringValue string | ErrorValue string | NilValue | OtherValue 'o

type_synonym 'o Fields = "string \<rightharpoonup> 'o Value"

type_synonym styler = "string \<Rightarrow> string"

record ColorScheme =
  InfoLevelStyle :: string
  WarnLevelStyle :: string
  ErrorLevelStyle :: string
  FatalLevelStyle :: string
  PanicLevelStyle :: string
  DebugLevelStyle :: string
  PrefixStyle :: string
  TimestampStyle :: string

record compiledColorScheme =
  InfoLevelColor :: styler
  WarnLevelColor :: styler
  ErrorLevelColor :: styler
  FatalLevelColor :: styler
  PanicLevelColor :: styler
  DebugLevelColor :: styler
  PrefixColor :: styler
  TimestampColor :: styler

text \<open>
  \<^verbatim>\<open>TextFormatter\<close>. \<open>colorScheme\<close> is a pointer, nil until \<^verbatim>\<open>SetColorScheme\<close> is called.
  \<open>OnceDone\<close> is the state of the embedded \<^verbatim>\<open>sync.Once\<close>. \<open>ShortTimestamp\<close> is read by
  \<^verbatim>\<open>printColored\<close> (line 223) although the struct declaration does not list it.
\<close>

record TextFormatter =
  ForceColors :: bool
  DisableColors :: bool
  DisableTimestamp :: bool
  FullTimestamp :: bool
  TimestampFormat :: string
  DisableSorting :: bool
  QuoteEmptyFields :: bool
  QuoteCharacter :: string
  SpacePadding :: int
  colorScheme :: "compiledColorScheme option"
  isTerminal :: bool
  OnceDone :: bool
  ShortTimestamp :: bool

text \<open>
  \<^verbatim>\<open>logrus.Entry\<close>: \<open>Logger\<close> is \<open>None\<close> for a nil logger and otherwise the logger's
  \<^verbatim>\<open>Out\<close>; \<open>Buffer\<close> is \<open>None\<close> for a nil buffer and otherwise the buffer's contents.
\<close>

record ('t, 'o, 'w) Entry =
  Logger :: "'w option"
  Data :: "'o Fields"
  Time :: 't
  Level :: Level
  Message :: string
  Buffer :: "string option"

text \<open>
  What the file imports: \<^verbatim>\<open>Time.Format\<close>, \<^verbatim>\<open>Level.String\<close>, \<^verbatim>\<open>strings.ToUpper\<close>, the
  verbs \<^verbatim>\<open>%q\<close>, \<^verbatim>\<open>%v\<close> (\<^verbatim>\<open>fmt.Fprint\<close>) and \<^verbatim>\<open>%+v\<close> on a value that is neither string
  nor error, the verb \<^verbatim>\<open>%s\<close> on a function value, the rune count that \<^verbatim>\<open>fmt\<close> pads by,
  the message under the format \<^verbatim>\<open>fmt.Sprintf("%%-%ds", n)\<close> for a padding \<open>n\<close> other than 0,
  \<^verbatim>\<open>logrus.IsTerminal\<close>, \<^verbatim>\<open>ansi.ColorFunc\<close>, \<^verbatim>\<open>ansi.LightBlack\<close>, \<^verbatim>\<open>ansi.Reset\<close>,
  \<^verbatim>\<open>logrus.DefaultTimestampFormat\<close>, and \<^verbatim>\<open>time.Since(baseTimestamp)\<close> in nanoseconds at
  the moment of the call.
\<close>

record ('t, 'o, 'w) Env =
  TimeFormat :: "'t \<Rightarrow> string \<Rightarrow> string"
  LevelString :: "Level \<Rightarrow> string"
  ToUpper :: "string \<Rightarrow> string"
  Quote :: "string \<Rightarrow> string"
  Sprint :: "'o \<Rightarrow> string"
  SprintPlusV :: "'o \<Rightarrow> string"
  SprintFunc :: "styler \<Rightarrow> string"
  RuneCount :: "string \<Rightarrow> nat"
  SprintfPadded :: "int \<Rightarrow> string \<Rightarrow> string"
  IsTerminal :: "'w \<Rightarrow> bool"
  ColorFunc :: "string \<Rightarrow> styler"
  LightBlack :: string
  Reset :: string
  DefaultTimestampFormat :: string
  SinceBase :: int

datatype panic = NilPointerDereference

datatype error = Error string

subsection \<open>needsQuoting\<close>

text \<open>
  The loop ranges over the runes of the text. Every rune of a byte at or above 0x80 (a
  code point beyond ASCII, or U+FFFD for an invalid byte) fails all five tests, as the
  byte itself does, so the loop over the bytes returns the same.
\<close>

fun needsQuotingLoop :: "string \<Rightarrow> bool" where
  "needsQuotingLoop [] = False"
| "needsQuotingLoop (ch # rest) =
     (if \<not> ((ch \<ge> CHR ''a'' \<and> ch \<le> CHR ''z'') \<or>
             (ch \<ge> CHR ''A'' \<and> ch \<le> CHR ''Z'') \<or>
             (ch \<ge> CHR ''0'' \<and> ch \<le> CHR ''9'') \<or>
             ch = CHR ''-'' \<or> ch = CHR ''.'')
      then True
      else needsQuotingLoop rest)"

definition needsQuoting :: "TextFormatter \<Rightarrow> string \<Rightarrow> bool" where
  "needsQuoting f text =
     (if QuoteEmptyFields f \<and> length text = 0 then True else needsQuotingLoop text)"

text \<open>The character class \<^verbatim>\<open>[A-Za-z0-9.-]\<close> of the specification, written out.\<close>

definition specUnquotedChars :: "char set" where
  "specUnquotedChars =
     set ''ABCDEFGHIJKLMNOPQRSTUVWXYZabcdefghijklmnopqrstuvwxyz0123456789.-''"

subsection \<open>extractPrefix\<close>

text \<open>
  The regular expression \<^verbatim>\<open>^\[(.*?)\]\<close>. \<open>lazyToBracket\<close> is \<^verbatim>\<open>(.*?)\]\<close> at the start of
  its input: the dot takes any character but the line feed, and the lazy star stops at the
  first closing bracket. The result is the matched text, bracket included.
\<close>

fun lazyToBracket :: "string \<Rightarrow> string option" where
  "lazyToBracket [] = None"
| "lazyToBracket (c # cs) =
     (if c = CHR '']'' then Some [c]
      else if c = CHR 0x0A then None
      else map_option ((#) c) (lazyToBracket cs))"

definition regexFind :: "string \<Rightarrow> string option" where
  "regexFind msg =
     (case msg of
        [] \<Rightarrow> None
      | c # cs \<Rightarrow> if c = CHR ''['' then map_option ((#) c) (lazyToBracket cs) else None)"

definition MatchString :: "string \<Rightarrow> bool" where
  "MatchString msg = (regexFind msg \<noteq> None)"

definition FindString :: "string \<Rightarrow> string" where
  "FindString msg = (case regexFind msg of None \<Rightarrow> [] | Some m \<Rightarrow> m)"

text \<open>
  \<^verbatim>\<open>strings.TrimSpace\<close> removes the leading and trailing runes that \<^verbatim>\<open>unicode.IsSpace\<close>
  accepts. The list holds the UTF-8 encodings of those runes: U+0009 to U+000D, U+0020,
  U+0085, U+00A0, U+1680, U+2000 to U+200A, U+2028, U+2029, U+202F, U+205F, U+3000.
\<close>

definition whiteSpaceEncodings :: "string list" where
  "whiteSpaceEncodings =
     [[CHR 0x09], [CHR 0x0A], [CHR 0x0B], [CHR 0x0C], [CHR 0x0D], [CHR 0x20],
      [CHR 0xC2, CHR 0x85], [CHR 0xC2, CHR 0xA0],
      [CHR 0xE1, CHR 0x9A, CHR 0x80],
      [CHR 0xE2, CHR 0x80, CHR 0x80], [CHR 0xE2, CHR 0x80, CHR 0x81],
      [CHR 0xE2, CHR 0x80, CHR 0x82], [CHR 0xE2, CHR 0x80, CHR 0x83],
      [CHR 0xE2, CHR 0x80, CHR 0x84], [CHR 0xE2, CHR 0x80, CHR 0x85],
      [CHR 0xE2, CHR 0x80, CHR 0x86], [CHR 0xE2, CHR 0x80, CHR 0x87],
      [CHR 0xE2, CHR 0x80, CHR 0x88], [CHR 0xE2, CHR 0x80, CHR 0x89],
      [CHR 0xE2, CHR 0x80, CHR 0x8A],
      [CHR 0xE2, CHR 0x80, CHR 0xA8], [CHR 0xE2, CHR 0x80, CHR 0xA9],
      [CHR 0xE2, CHR 0x80, CHR 0xAF], [CHR 0xE2, CHR 0x81, CHR 0x9F],
      [CHR 0xE3, CHR 0x80, CHR 0x80]]"

definition leadingSpace :: "string \<Rightarrow> nat" where
  "leadingSpace s =
     (case find (\<lambda>w. prefix w s) whiteSpaceEncodings of None \<Rightarrow> 0 | Some w \<Rightarrow> length w)"

definition trailingSpace :: "string \<Rightarrow> nat" where
  "trailingSpace s =
     (case find (\<lambda>w. suffix w s) whiteSpaceEncodings of None \<Rightarrow> 0 | Some w \<Rightarrow> length w)"

lemma leadingSpace_le: "leadingSpace s \<le> length s"
  by (auto simp: leadingSpace_def prefix_def split: option.splits dest!: find_Some_iff[THEN iffD1])

lemma trailingSpace_le: "trailingSpace s \<le> length s"
  by (auto simp: trailingSpace_def suffix_def split: option.splits dest!: find_Some_iff[THEN iffD1])

function trimLeftSpace :: "string \<Rightarrow> string" where
  "trimLeftSpace s =
     (if leadingSpace s = 0 then s else trimLeftSpace (drop (leadingSpace s) s))"
  by pat_completeness auto
termination
proof (relation "measure length")
  show "wf (measure length)" by simp
next
  fix s :: string
  assume "leadingSpace s \<noteq> 0"
  with leadingSpace_le [of s] show "(drop (leadingSpace s) s, s) \<in> measure length"
    by (cases s) auto
qed

function trimRightSpace :: "string \<Rightarrow> string" where
  "trimRightSpace s =
     (if trailingSpace s = 0 then s
      else trimRightSpace (take (length s - trailingSpace s) s))"
  by pat_completeness auto
termination
proof (relation "measure length")
  show "wf (measure length)" by simp
next
  fix s :: string
  assume "trailingSpace s \<noteq> 0"
  with trailingSpace_le [of s]
  show "(take (length s - trailingSpace s) s, s) \<in> measure length"
    by (cases s) auto
qed

declare trimLeftSpace.simps [simp del] trimRightSpace.simps [simp del]

definition TrimSpace :: "string \<Rightarrow> string" where
  "TrimSpace s = trimRightSpace (trimLeftSpace s)"

text \<open>
  The two slices are within bounds whenever the expression matches: a match has at least
  its two brackets (lemma \<open>regexFind_length\<close>).
\<close>

definition extractPrefix :: "string \<Rightarrow> string \<times> string" where
  "extractPrefix msg =
     (let prefix = [] in
      if MatchString msg then
        (let match = FindString msg in
         (take (length match - 1 - 1) (drop 1 match), TrimSpace (drop (length match) msg)))
      else (prefix, msg))"

text \<open>
  The specification's ``leading bracket token'': the message opens with a bracket and a
  closing bracket follows somewhere.
\<close>

definition hasLeadingBracketToken :: "string \<Rightarrow> bool" where
  "hasLeadingBracketToken msg =
     (case msg of [] \<Rightarrow> False | c # cs \<Rightarrow> c = CHR ''['' \<and> CHR '']'' \<in> set cs)"

subsection \<open>The verbs of fmt that the file uses\<close>

text \<open>\<^verbatim>\<open>%+5s\<close>: spaces on the left up to a width of five runes.\<close>

definition padLeft5 :: "('t, 'o, 'w) Env \<Rightarrow> string \<Rightarrow> string" where
  "padLeft5 env s = replicate (5 - RuneCount env s) CHR '' '' @ s"

fun decimal :: "nat \<Rightarrow> string" where
  "decimal n =
     (if n < 10 then [char_of (48 + n)]
      else decimal (n div 10) @ [char_of (48 + n mod 10)])"

declare decimal.simps [simp del]

text \<open>\<^verbatim>\<open>%04d\<close>: zeros on the left up to a width of four, the sign counted in.\<close>

definition fmt04d :: "int \<Rightarrow> string" where
  "fmt04d n =
     (if n < 0
      then CHR ''-'' # replicate (3 - length (decimal (nat (- n)))) CHR ''0'' @ decimal (nat (- n))
      else replicate (4 - length (decimal (nat n))) CHR ''0'' @ decimal (nat n))"

text \<open>
  \<^verbatim>\<open>%+v\<close> and \<^verbatim>\<open>fmt.Fprint\<close> of a field value: a string is written as it is, an error by
  its \<^verbatim>\<open>Error()\<close> text, the nil interface as \<^verbatim>\<open><nil>\<close>.
\<close>

definition fmtPlusV :: "('t, 'o, 'w) Env \<Rightarrow> 'o Value \<Rightarrow> string" where
  "fmtPlusV env v =
     (case v of
        StringValue s \<Rightarrow> s
      | ErrorValue m \<Rightarrow> m
      | NilValue \<Rightarrow> ''<nil>''
      | OtherValue x \<Rightarrow> SprintPlusV env x)"

definition fmtSprint :: "('t, 'o, 'w) Env \<Rightarrow> 'o Value \<Rightarrow> string" where
  "fmtSprint env v =
     (case v of
        StringValue s \<Rightarrow> s
      | ErrorValue m \<Rightarrow> m
      | NilValue \<Rightarrow> ''<nil>''
      | OtherValue x \<Rightarrow> Sprint env x)"

text \<open>A map read \<^verbatim>\<open>data[k]\<close> without the second result: nil for an absent key.\<close>

definition index :: "'o Fields \<Rightarrow> string \<Rightarrow> 'o Value" where
  "index data k = (case data k of None \<Rightarrow> NilValue | Some v \<Rightarrow> v)"

subsection \<open>miniTS, compileColorScheme, init, SetColorScheme\<close>

text \<open>
  \<^verbatim>\<open>int(time.Since(baseTimestamp) / time.Second)\<close>: Go's integer division truncates
  towards zero.
\<close>

definition miniTS :: "('t, 'o, 'w) Env \<Rightarrow> int" where
  "miniTS env =
     (if SinceBase env < 0 then - ((- SinceBase env) div 1000000000)
      else SinceBase env div 1000000000)"

definition compileColorScheme :: "('t, 'o, 'w) Env \<Rightarrow> ColorScheme \<Rightarrow> compiledColorScheme" where
  "compileColorScheme env s =
     \<lparr>InfoLevelColor = ColorFunc env (InfoLevelStyle s),
      WarnLevelColor = ColorFunc env (WarnLevelStyle s),
      ErrorLevelColor = ColorFunc env (ErrorLevelStyle s),
      FatalLevelColor = ColorFunc env (FatalLevelStyle s),
      PanicLevelColor = ColorFunc env (PanicLevelStyle s),
      DebugLevelColor = ColorFunc env (DebugLevelStyle s),
      PrefixColor = ColorFunc env (PrefixStyle s),
      TimestampColor = ColorFunc env (TimestampStyle s)\<rparr>"

definition init :: "('t, 'o, 'w) Env \<Rightarrow> TextFormatter \<Rightarrow> ('t, 'o, 'w) Entry \<Rightarrow> TextFormatter" where
  "init env f entry =
     (let f1 = (if length (QuoteCharacter f) = 0 then f\<lparr>QuoteCharacter := [CHR 0x22]\<rparr> else f)
      in case Logger entry of
           Some out \<Rightarrow> f1\<lparr>isTerminal := IsTerminal env out\<rparr>
         | None \<Rightarrow> f1)"

text \<open>\<^verbatim>\<open>sync.Once.Do\<close>: the action runs on the first call only.\<close>

definition Do :: "TextFormatter \<Rightarrow> (TextFormatter \<Rightarrow> TextFormatter) \<Rightarrow> TextFormatter" where
  "Do f action = (if OnceDone f then f else (action f)\<lparr>OnceDone := True\<rparr>)"

definition SetColorScheme ::
  "('t, 'o, 'w) Env \<Rightarrow> TextFormatter \<Rightarrow> ColorScheme \<Rightarrow> TextFormatter" where
  "SetColorScheme env f cs = f\<lparr>colorScheme := Some (compileColorScheme env cs)\<rparr>"

subsection \<open>prefixFieldClashes\<close>

definition prefixFieldClashes :: "'o Fields \<Rightarrow> 'o Fields" where
  "prefixFieldClashes data =
     (let data1 = (case data ''time'' of Some t \<Rightarrow> data(''fields.time'' \<mapsto> t) | None \<Rightarrow> data);
          data2 = (case data1 ''msg'' of Some m \<Rightarrow> data1(''fields.msg'' \<mapsto> m) | None \<Rightarrow> data1)
      in case data2 ''level'' of Some l \<Rightarrow> data2(''fields.level'' \<mapsto> l) | None \<Rightarrow> data2)"

subsection \<open>appendKeyValue\<close>

text \<open>
  The buffer is passed in and returned. \<^verbatim>\<open>%q\<close> of an error quotes its \<^verbatim>\<open>Error()\<close> text.
  The source writes the test as \<^verbatim>\<open>needsQuoting(value)\<close>, without a receiver; the only
  function of that name is the method, taken here on \<open>f\<close>.
\<close>

definition appendKeyValue ::
  "('t, 'o, 'w) Env \<Rightarrow> TextFormatter \<Rightarrow> string \<Rightarrow> string \<Rightarrow> 'o Value \<Rightarrow> string" where
  "appendKeyValue env f b key val =
     (let b1 = b @ key;
          b2 = b1 @ [CHR ''=''];
          b3 = (case val of
                  StringValue s \<Rightarrow>
                    if needsQuoting f s then b2 @ s else b2 @ Quote env s
                | ErrorValue errmsg \<Rightarrow>
                    if needsQuoting f errmsg then b2 @ errmsg else b2 @ Quote env errmsg
                | _ \<Rightarrow> b2 @ fmtSprint env val)
      in b3 @ [CHR '' ''])"

subsection \<open>printColored\<close>

text \<open>The loop over the keys at the end of \<^verbatim>\<open>printColored\<close> (lines 229 to 234).\<close>

fun printColoredFields ::
  "('t, 'o, 'w) Env \<Rightarrow> styler \<Rightarrow> 'o Fields \<Rightarrow> string \<Rightarrow> string list \<Rightarrow> string" where
  "printColoredFields env levelColor data b [] = b"
| "printColoredFields env levelColor data b (k # keys) =
     (if k \<noteq> ''prefix''
      then printColoredFields env levelColor data
             (b @ '' '' @ SprintFunc env levelColor @ k @ Reset env @ ''='' @
                fmtPlusV env (index data k)) keys
      else printColoredFields env levelColor data b keys)"

text \<open>The switch on the level (lines 181 to 194) and the level text (lines 196 to 200).\<close>

definition levelColorOf :: "compiledColorScheme \<Rightarrow> Level \<Rightarrow> styler" where
  "levelColorOf cs level =
     (case level of
        InfoLevel \<Rightarrow> InfoLevelColor cs
      | WarnLevel \<Rightarrow> WarnLevelColor cs
      | ErrorLevel \<Rightarrow> ErrorLevelColor cs
      | FatalLevel \<Rightarrow> FatalLevelColor cs
      | PanicLevel \<Rightarrow> PanicLevelColor cs
      | _ \<Rightarrow> DebugLevelColor cs)"

definition levelTextOf :: "('t, 'o, 'w) Env \<Rightarrow> Level \<Rightarrow> string" where
  "levelTextOf env level =
     (if level \<noteq> WarnLevel then ToUpper env (LevelString env level) else ''WARN'')"

text \<open>
  Reading a field of the nil \<open>colorScheme\<close> panics; the switch on the level does so before
  anything is written. Line 206 adds \<^verbatim>\<open>":"\<close> to the prefix field, an \<^verbatim>\<open>interface{}\<close>: the
  value enters by its \<^verbatim>\<open>fmt.Sprint\<close> text, which for a string is the string.
\<close>

definition printColored ::
  "('t, 'o, 'w) Env \<Rightarrow> TextFormatter \<Rightarrow> string \<Rightarrow> ('t, 'o, 'w) Entry \<Rightarrow> string list \<Rightarrow> string
     \<Rightarrow> panic + string" where
  "printColored env f b entry keys timestampFormat =
     (case colorScheme f of
        None \<Rightarrow> Inl NilPointerDereference
      | Some cs \<Rightarrow>
         (let levelColor = levelColorOf cs (Level entry);
              levelText = levelTextOf env (Level entry);
              (prefix, message) =
                (case Data entry ''prefix'' of
                   Some prefixValue \<Rightarrow>
                     ('' '' @ PrefixColor cs (fmtSprint env prefixValue @ '':''), Message entry)
                 | None \<Rightarrow>
                     (let (prefixValue, trimmedMsg) = extractPrefix (Message entry)
                      in if length prefixValue > 0
                         then ('' '' @ PrefixColor cs (prefixValue @ '':''), trimmedMsg)
                         else ([], Message entry)));
              formatted =
                (if SpacePadding f \<noteq> 0 then SprintfPadded env (SpacePadding f) message
                 else message);
              b1 =
                (if DisableTimestamp f
                 then b @ padLeft5 env (levelColor levelText) @ prefix @ '' '' @ formatted
                 else if ShortTimestamp f
                 then b @ LightBlack env @ ''['' @ fmt04d (miniTS env) @ '']'' @ Reset env @ '' '' @
                        SprintFunc env levelColor @ padLeft5 env levelText @ Reset env @
                        prefix @ '' '' @ formatted
                 else b @ LightBlack env @ ''['' @ TimeFormat env (Time entry) timestampFormat @
                        '']'' @ Reset env @ '' '' @
                        SprintFunc env levelColor @ padLeft5 env levelText @ Reset env @
                        prefix @ '' '' @ formatted)
          in Inr (printColoredFields env levelColor (Data entry) b1 keys)))"

subsection \<open>Format\<close>

text \<open>The loop over the keys in the plain branch of \<^verbatim>\<open>Format\<close> (lines 169 to 171).\<close>

fun appendFields ::
  "('t, 'o, 'w) Env \<Rightarrow> TextFormatter \<Rightarrow> 'o Fields \<Rightarrow> string \<Rightarrow> string list \<Rightarrow> string" where
  "appendFields env f data b [] = b"
| "appendFields env f data b (key # keys) =
     appendFields env f data (appendKeyValue env f b key (index data key)) keys"

text \<open>
  \<open>rangeKeys\<close> is the order in which \<^verbatim>\<open>for k := range entry.Data\<close> yields the keys; Go
  leaves it open, so it is an argument: some list of the keys of the map, each once.
  \<open>Format\<close> returns the two results of the Go function, or the panic, together with the
  formatter and the entry as the call leaves them. A nil \<^verbatim>\<open>entry.Buffer\<close> stays nil; the
  other one holds what was written to it.
\<close>

definition isColored :: "TextFormatter \<Rightarrow> bool" where
  "isColored f = ((ForceColors f \<or> isTerminal f) \<and> \<not> DisableColors f)"

definition Format ::
  "('t, 'o, 'w) Env \<Rightarrow> string list \<Rightarrow> TextFormatter \<Rightarrow> ('t, 'o, 'w) Entry
     \<Rightarrow> (panic + string \<times> error option) \<times> TextFormatter \<times> ('t, 'o, 'w) Entry" where
  "Format env rangeKeys f entry =
     (let keys = (if \<not> DisableSorting f then sort rangeKeys else rangeKeys);
          b = (case Buffer entry of Some buf \<Rightarrow> buf | None \<Rightarrow> []);
          entry1 = entry\<lparr>Data := prefixFieldClashes (Data entry)\<rparr>;
          f1 = Do f (\<lambda>f. init env f entry1);
          timestampFormat =
            (if TimestampFormat f1 = [] then DefaultTimestampFormat env else TimestampFormat f1);
          written =
            (if isColored f1 then printColored env f1 b entry1 keys timestampFormat
             else
               (let b1 = (if \<not> DisableTimestamp f1
                          then appendKeyValue env f1 b ''time''
                                 (StringValue (TimeFormat env (Time entry1) timestampFormat))
                          else b);
                    b2 = appendKeyValue env f1 b1 ''level''
                           (StringValue (LevelString env (Level entry1)));
                    b3 = (if Message entry1 \<noteq> []
                          then appendKeyValue env f1 b2 ''msg'' (StringValue (Message entry1))
                          else b2)
                in Inr (appendFields env f1 (Data entry1) b3 keys)))
      in case written of
           Inl p \<Rightarrow> (Inl p, f1, entry1)
         | Inr b4 \<Rightarrow>
             (let out = b4 @ [CHR 0x0A]
              in (Inr (out, None), f1, entry1\<lparr>Buffer := map_option (\<lambda>_. out) (Buffer entry)\<rparr>)))"

subsection \<open>A concrete environment\<close>

text \<open>
  The imported functions at concrete values, for evaluating the definitions: times are
  carried already formatted, the level names are logrus's, the other values are
  integers printed in decimal, a rune is a byte, styles leave the text as it is, and
  \<^verbatim>\<open>%q\<close> puts double quotes around a text that needs no escape.
\<close>

definition asciiUpper :: "char \<Rightarrow> char" where
  "asciiUpper c = (if CHR ''a'' \<le> c \<and> c \<le> CHR ''z'' then char_of (of_char c - (32::nat)) else c)"

definition showInt :: "int \<Rightarrow> string" where
  "showInt n = (if n < 0 then CHR ''-'' # decimal (nat (- n)) else decimal (nat n))"

definition logrusLevelString :: "Level \<Rightarrow> string" where
  "logrusLevelString level =
     (case level of
        PanicLevel \<Rightarrow> ''panic''
      | FatalLevel \<Rightarrow> ''fatal''
      | ErrorLevel \<Rightarrow> ''error''
      | WarnLevel \<Rightarrow> ''warning''
      | InfoLevel \<Rightarrow> ''info''
      | DebugLevel \<Rightarrow> ''debug'')"

definition exampleEnv :: "(string, int, bool) Env" where
  "exampleEnv =
     \<lparr>TimeFormat = (\<lambda>t layout. t),
      LevelString = logrusLevelString,
      ToUpper = map asciiUpper,
      Quote = (\<lambda>s. [CHR 0x22] @ s @ [CHR 0x22]),
      Sprint = showInt,
      SprintPlusV = showInt,
      SprintFunc = (\<lambda>c. ''%!s(func(string) string=0x4a5b60)''),
      RuneCount = length,
      SprintfPadded = (\<lambda>n s. s @ replicate (nat \<bar>n\<bar> - length s) CHR '' ''),
      IsTerminal = (\<lambda>w. w),
      ColorFunc = (\<lambda>style s. s),
      LightBlack = CHR 0x1B # ''[0;90m'',
      Reset = CHR 0x1B # ''[0m'',
      DefaultTimestampFormat = ''2006-01-02T15:04:05Z07:00'',
      SinceBase = 3500000000\<rparr>"

text \<open>\<^verbatim>\<open>&TextFormatter{}\<close>: every field at its zero value.\<close>

definition zeroFormatter :: TextFormatter where
  "zeroFormatter =
     \<lparr>ForceColors = False, DisableColors = False, DisableTimestamp = False,
      FullTimestamp = False, TimestampFormat = [], DisableSorting = False,
      QuoteEmptyFields = False, QuoteCharacter = [], SpacePadding = 0,
      colorScheme = None, isTerminal = False, OnceDone = False, ShortTimestamp = False\<rparr>"

definition defaultColorScheme :: ColorScheme where
  "defaultColorScheme =
     \<lparr>InfoLevelStyle = ''green'', WarnLevelStyle = ''yellow'', ErrorLevelStyle = ''red'',
      FatalLevelStyle = ''red'', PanicLevelStyle = ''red'', DebugLevelStyle = ''blue'',
      PrefixStyle = ''cyan'', TimestampStyle = ''black+h''\<rparr>"

text \<open>An entry with no logger, no buffer and no fields, logged at 12:00:00 UTC.\<close>

definition exampleEntry :: "Level \<Rightarrow> string \<Rightarrow> (string, int, bool) Entry" where
  "exampleEntry level msg =
     \<lparr>Logger = None, Data = Map.empty, Time = ''2016-11-01T12:00:00Z'', Level = level,
      Message = msg, Buffer = None\<rparr>"

section \<open>Properties\<close>

subsection \<open>needsQuoting\<close>

lemma unquoted_char_iff:
  "((ch \<ge> CHR ''a'' \<and> ch \<le> CHR ''z'') \<or>
    (ch \<ge> CHR ''A'' \<and> ch \<le> CHR ''Z'') \<or>
    (ch \<ge> CHR ''0'' \<and> ch \<le> CHR ''9'') \<or>
    ch = CHR ''-'' \<or> ch = CHR ''.'') \<longleftrightarrow> ch \<in> specUnquotedChars"
  by (cases ch) (simp add: specUnquotedChars_def less_eq_char_def)

lemma needsQuotingLoop_iff:
  "needsQuotingLoop s \<longleftrightarrow> (\<exists>c\<in>set s. c \<notin> specUnquotedChars)"
  by (induction s) (simp_all add: unquoted_char_iff)

text \<open>
  C6. \<open>needsQuoting\<close> is true exactly when \<open>QuoteEmptyFields\<close> is set and the text is empty,
  or some character of the text lies outside \<^verbatim>\<open>[A-Za-z0-9.-]\<close>. So on the empty text it
  is the flag, on \<^verbatim>\<open>abc-1.2\<close> it is false, and on \<^verbatim>\<open>a b\<close> it is true.
\<close>

theorem needsQuoting_char_class:
  "(needsQuoting f s \<longleftrightarrow>
      (QuoteEmptyFields f \<and> s = []) \<or> (\<exists>c\<in>set s. c \<notin> specUnquotedChars)) \<and>
   (needsQuoting f [] \<longleftrightarrow> QuoteEmptyFields f) \<and>
   \<not> needsQuoting f ''abc-1.2'' \<and>
   needsQuoting f ''a b''"
proof -
  have general: "needsQuoting f s \<longleftrightarrow>
      (QuoteEmptyFields f \<and> s = []) \<or> (\<exists>c\<in>set s. c \<notin> specUnquotedChars)" for s
    by (auto simp: needsQuoting_def needsQuotingLoop_iff)
  have "\<not> needsQuoting f ''abc-1.2''"
    by (simp add: general specUnquotedChars_def)
  moreover have "needsQuoting f ''a b''"
    by (simp add: general specUnquotedChars_def)
  ultimately show ?thesis
    using general [of s] general [of "[]"] by simp
qed

subsection \<open>extractPrefix\<close>

lemma lazyToBracket_None: "CHR '']'' \<notin> set cs \<Longrightarrow> lazyToBracket cs = None"
  by (induction cs) auto

lemma lazyToBracket_Some:
  "CHR '']'' \<notin> set p \<Longrightarrow> CHR 0x0A \<notin> set p \<Longrightarrow>
   lazyToBracket (p @ CHR '']'' # rest) = Some (p @ [CHR '']''])"
  by (induction p) auto

text \<open>A match holds its two brackets and is a prefix of the message: the slices are in bounds.\<close>

lemma regexFind_length: "regexFind msg = Some m \<Longrightarrow> 2 \<le> length m \<and> prefix m msg"
proof -
  have inner: "lazyToBracket cs = Some m' \<Longrightarrow> 1 \<le> length m' \<and> prefix m' cs" for cs m'
    by (induction cs arbitrary: m') (auto split: if_splits)
  assume "regexFind msg = Some m"
  then show ?thesis
    by (cases msg) (auto simp: regexFind_def split: if_splits dest: inner)
qed

lemma extractPrefix_no_match:
  "\<not> hasLeadingBracketToken msg \<Longrightarrow> extractPrefix msg = ([], msg)"
  by (cases msg)
    (auto simp: hasLeadingBracketToken_def extractPrefix_def MatchString_def regexFind_def
      lazyToBracket_None)

lemma extractPrefix_match:
  assumes "CHR '']'' \<notin> set p" and "CHR 0x0A \<notin> set p"
  shows "extractPrefix (CHR ''['' # p @ CHR '']'' # rest) = (p, TrimSpace rest)"
  using assms
  by (simp add: extractPrefix_def MatchString_def FindString_def regexFind_def
      lazyToBracket_Some)

text \<open>
  C3. \<open>extractPrefix\<close> takes the leading bracketed token up to the first closing bracket:
  \<^verbatim>\<open>[db] connected\<close> gives the prefix \<^verbatim>\<open>db\<close> and the remainder \<^verbatim>\<open>connected\<close>,
  \<^verbatim>\<open>[a][b] c\<close> gives \<^verbatim>\<open>a\<close> and \<^verbatim>\<open>[b] c\<close>, and a message with no leading bracket token
  comes back unchanged with the empty prefix. In general the prefix is the text between
  the opening bracket and the first closing one, when that text is on one line, and the
  remainder is what follows, trimmed.
\<close>

theorem extractPrefix_leading_token:
  "extractPrefix ''[db] connected'' = (''db'', ''connected'') \<and>
   extractPrefix ''[a][b] c'' = (''a'', ''[b] c'') \<and>
   (\<forall>p rest. CHR '']'' \<notin> set p \<and> CHR 0x0A \<notin> set p \<longrightarrow>
      extractPrefix (CHR ''['' # p @ CHR '']'' # rest) = (p, TrimSpace rest)) \<and>
   (\<forall>msg. \<not> hasLeadingBracketToken msg \<longrightarrow> extractPrefix msg = ([], msg))"
proof -
  have "extractPrefix ''[db] connected'' = (''db'', ''connected'')"
    by code_simp
  moreover have "extractPrefix ''[a][b] c'' = (''a'', ''[b] c'')"
    by code_simp
  ultimately show ?thesis
    by (simp add: extractPrefix_no_match extractPrefix_match)
qed

theorem extractPrefix_leading_token_witness:
  "\<not> hasLeadingBracketToken ''no brackets'' \<and>
   extractPrefix ''no brackets'' = ([], ''no brackets'') \<and>
   CHR '']'' \<notin> set ''a'' \<and> CHR 0x0A \<notin> set ''a'' \<and>
   extractPrefix ''[a] [b] rest'' = (''a'', TrimSpace '' [b] rest'') \<and>
   TrimSpace '' [b] rest'' = ''[b] rest''"
proof -
  have "TrimSpace '' [b] rest'' = ''[b] rest''"
    by code_simp
  moreover have "CHR '']'' \<notin> set ''a'' \<and> CHR 0x0A \<notin> set ''a'' \<longrightarrow>
      extractPrefix (CHR ''['' # ''a'' @ CHR '']'' # '' [b] rest'') =
        (''a'', TrimSpace '' [b] rest'')"
    using extractPrefix_leading_token by blast
  moreover have "extractPrefix ''no brackets'' = ([], ''no brackets'')"
    using extractPrefix_leading_token by (simp add: hasLeadingBracketToken_def)
  ultimately show ?thesis
    by (simp add: hasLeadingBracketToken_def)
qed

subsection \<open>appendKeyValue\<close>

text \<open>
  C2. For a string value \<open>appendKeyValue\<close> writes the raw text when \<open>needsQuoting\<close> holds of
  it and the \<^verbatim>\<open>%q\<close> form when it does not; an error value takes the same branch on its
  message text.
\<close>

theorem appendKeyValue_string_branches:
  "appendKeyValue env f b key (StringValue s) =
     b @ key @ ''='' @ (if needsQuoting f s then s else Quote env s) @ '' '' \<and>
   appendKeyValue env f b key (ErrorValue errmsg) =
     b @ key @ ''='' @ (if needsQuoting f errmsg then errmsg else Quote env errmsg) @ '' ''"
  by (simp add: appendKeyValue_def)

subsection \<open>The two loops over the keys\<close>

lemma appendKeyValue_append:
  "appendKeyValue env f b key v = b @ appendKeyValue env f [] key v"
  by (simp add: appendKeyValue_def Let_def split: Value.splits)

lemma appendFields_concat:
  "appendFields env f data b keys =
     b @ concat (map (\<lambda>k. appendKeyValue env f [] k (index data k)) keys)"
proof (induction keys arbitrary: b)
  case Nil
  show ?case by simp
next
  case (Cons k keys)
  show ?case
    by (simp add: Cons.IH appendKeyValue_append [of env f b])
qed

lemma printColoredFields_concat:
  "printColoredFields env levelColor data b keys =
     b @ concat (map (\<lambda>k. '' '' @ SprintFunc env levelColor @ k @ Reset env @ ''='' @
                          fmtPlusV env (index data k))
                  (filter (\<lambda>k. k \<noteq> ''prefix'') keys))"
  by (induction keys arbitrary: b) simp_all

lemma sort_range_keys:
  "distinct ks \<Longrightarrow> sort ks = sorted_list_of_set (set ks)"
  by (simp add: sorted_list_of_set_sort_remdups distinct_remdups_id)

subsection \<open>What Format leaves behind\<close>

lemma Format_formatter:
  "fst (snd (Format env rangeKeys f entry)) =
     Do f (\<lambda>f. init env f (entry\<lparr>Data := prefixFieldClashes (Data entry)\<rparr>))"
  by (simp add: Format_def Let_def split: sum.splits)

lemma Format_Data:
  "Data (snd (snd (Format env rangeKeys f entry))) = prefixFieldClashes (Data entry)"
  by (simp add: Format_def Let_def split: sum.splits)

lemma Do_init_colorScheme:
  "colorScheme (Do f (\<lambda>f. init env f e)) = colorScheme f"
  by (simp add: Do_def init_def Let_def split: option.splits)

lemma prefixFieldClashes_other:
  "k \<notin> {''fields.time'', ''fields.msg'', ''fields.level''} \<Longrightarrow>
   prefixFieldClashes data k = data k"
  by (simp add: prefixFieldClashes_def Let_def split: option.splits)

lemma prefixFieldClashes_time:
  "prefixFieldClashes data ''fields.time'' =
     (case data ''time'' of Some t \<Rightarrow> Some t | None \<Rightarrow> data ''fields.time'')"
  by (simp add: prefixFieldClashes_def Let_def split: option.splits)

lemma prefixFieldClashes_msg:
  "prefixFieldClashes data ''fields.msg'' =
     (case data ''msg'' of Some m \<Rightarrow> Some m | None \<Rightarrow> data ''fields.msg'')"
  by (simp add: prefixFieldClashes_def Let_def split: option.splits)

lemma prefixFieldClashes_level:
  "prefixFieldClashes data ''fields.level'' =
     (case data ''level'' of Some l \<Rightarrow> Some l | None \<Rightarrow> data ''fields.level'')"
  by (simp add: prefixFieldClashes_def Let_def split: option.splits)

lemma prefixFieldClashes_dom: "dom data \<subseteq> dom (prefixFieldClashes data)"
  by (auto simp: prefixFieldClashes_def Let_def split: option.splits)

text \<open>
  C10, as the code has it. \<open>Format\<close> changes the field mapping at the keys
  \<^verbatim>\<open>fields.time\<close>, \<^verbatim>\<open>fields.msg\<close> and \<^verbatim>\<open>fields.level\<close> only: each takes the value of
  \<^verbatim>\<open>time\<close>, \<^verbatim>\<open>msg\<close> or \<^verbatim>\<open>level\<close> when that key is present, replacing whatever it held, and
  keeps its value otherwise. Every other key keeps its value and no key is removed.
\<close>

theorem Format_field_mapping_frame:
  "(\<forall>k. k \<notin> {''fields.time'', ''fields.msg'', ''fields.level''} \<longrightarrow>
        Data (snd (snd (Format env rangeKeys f entry))) k = Data entry k) \<and>
   Data (snd (snd (Format env rangeKeys f entry))) ''fields.time'' =
     (case Data entry ''time'' of Some t \<Rightarrow> Some t | None \<Rightarrow> Data entry ''fields.time'') \<and>
   Data (snd (snd (Format env rangeKeys f entry))) ''fields.msg'' =
     (case Data entry ''msg'' of Some m \<Rightarrow> Some m | None \<Rightarrow> Data entry ''fields.msg'') \<and>
   Data (snd (snd (Format env rangeKeys f entry))) ''fields.level'' =
     (case Data entry ''level'' of Some l \<Rightarrow> Some l | None \<Rightarrow> Data entry ''fields.level'') \<and>
   dom (Data entry) \<subseteq> dom (Data (snd (snd (Format env rangeKeys f entry))))"
  unfolding Format_Data
  using prefixFieldClashes_other [of _ "Data entry"] prefixFieldClashes_dom [of "Data entry"]
  by (simp only: prefixFieldClashes_time prefixFieldClashes_msg prefixFieldClashes_level)
    blast

theorem Format_field_mapping_frame_witness:
  "''time'' \<notin> {''fields.time'', ''fields.msg'', ''fields.level''} \<and>
   Data (snd (snd (Format exampleEnv [''time''] zeroFormatter
           ((exampleEntry InfoLevel ''hello'')\<lparr>Data := [''time'' \<mapsto> StringValue ''noon'']\<rparr>))))
     ''time'' = Some (StringValue ''noon'') \<and>
   Data (snd (snd (Format exampleEnv [''time''] zeroFormatter
           ((exampleEntry InfoLevel ''hello'')\<lparr>Data := [''time'' \<mapsto> StringValue ''noon'']\<rparr>))))
     ''fields.time'' = Some (StringValue ''noon'')"
  using Format_field_mapping_frame
    [of exampleEnv "[''time'']" zeroFormatter
      "(exampleEntry InfoLevel ''hello'')\<lparr>Data := [''time'' \<mapsto> StringValue ''noon'']\<rparr>"]
  by simp

text \<open>
  C10, as it is stated, fails on an entry that holds both \<^verbatim>\<open>time\<close> and \<^verbatim>\<open>fields.time\<close>:
  the second key is there before the call and does not keep its value.
\<close>

theorem preexisting_key_overwritten_counterexample:
  "\<not> (\<forall>k v. Data ((exampleEntry InfoLevel ''hello'')
                    \<lparr>Data := [''time'' \<mapsto> StringValue ''noon'',
                              ''fields.time'' \<mapsto> StringValue ''kept'']\<rparr>) k = Some v \<longrightarrow>
          Data (snd (snd (Format exampleEnv [''time'', ''fields.time''] zeroFormatter
                 ((exampleEntry InfoLevel ''hello'')
                    \<lparr>Data := [''time'' \<mapsto> StringValue ''noon'',
                              ''fields.time'' \<mapsto> StringValue ''kept'']\<rparr>)))) k = Some v)"
proof
  let ?e = "(exampleEntry InfoLevel ''hello'')
              \<lparr>Data := [''time'' \<mapsto> StringValue ''noon'', ''fields.time'' \<mapsto> StringValue ''kept'']\<rparr>"
  assume kept: "\<forall>k v. Data ?e k = Some v \<longrightarrow>
     Data (snd (snd (Format exampleEnv [''time'', ''fields.time''] zeroFormatter ?e))) k = Some v"
  have before: "Data ?e ''fields.time'' = Some (StringValue ''kept'')"
    by simp
  have after: "Data (snd (snd (Format exampleEnv [''time'', ''fields.time''] zeroFormatter ?e)))
      ''fields.time'' = Some (StringValue ''noon'')"
    by (simp add: Format_Data prefixFieldClashes_time)
  from kept before
  have "Data (snd (snd (Format exampleEnv [''time'', ''fields.time''] zeroFormatter ?e)))
      ''fields.time'' = Some (StringValue ''kept'')"
    by blast
  with after show False
    by simp
qed

subsection \<open>QuoteCharacter\<close>

lemma needsQuoting_QuoteCharacter [simp]:
  "needsQuoting (f\<lparr>QuoteCharacter := q\<rparr>) s = needsQuoting f s"
  by (simp add: needsQuoting_def)

lemma appendKeyValue_QuoteCharacter [simp]:
  "appendKeyValue env (f\<lparr>QuoteCharacter := q\<rparr>) b key v = appendKeyValue env f b key v"
  by (simp add: appendKeyValue_def Let_def split: Value.splits)

lemma appendFields_QuoteCharacter [simp]:
  "appendFields env (f\<lparr>QuoteCharacter := q\<rparr>) data b keys = appendFields env f data b keys"
  by (induction keys arbitrary: b) simp_all

lemma printColored_QuoteCharacter [simp]:
  "printColored env (f\<lparr>QuoteCharacter := q\<rparr>) b e keys tf = printColored env f b e keys tf"
  by (simp add: printColored_def cong: if_cong option.case_cong)

lemma isColored_QuoteCharacter [simp]:
  "isColored (f\<lparr>QuoteCharacter := q\<rparr>) = isColored f"
  by (simp add: isColored_def)

text \<open>After the one-time \<open>init\<close> the two formatters still differ in \<open>QuoteCharacter\<close> at most.\<close>

lemma Do_init_QuoteCharacter:
  "\<exists>q'. Do (f\<lparr>QuoteCharacter := q\<rparr>) (\<lambda>f. init env f e) =
         (Do f (\<lambda>f. init env f e))\<lparr>QuoteCharacter := q'\<rparr>"
proof (cases "OnceDone f")
  case True
  then show ?thesis by (auto simp: Do_def)
next
  case False
  show ?thesis
  proof (cases "q = []")
    case True
    with False have "Do (f\<lparr>QuoteCharacter := q\<rparr>) (\<lambda>f. init env f e) =
         (Do f (\<lambda>f. init env f e))\<lparr>QuoteCharacter := [CHR 0x22]\<rparr>"
      by (simp add: Do_def init_def Let_def split: option.splits)
    then show ?thesis ..
  next
    case nonempty: False
    with False have "Do (f\<lparr>QuoteCharacter := q\<rparr>) (\<lambda>f. init env f e) =
         (Do f (\<lambda>f. init env f e))\<lparr>QuoteCharacter := q\<rparr>"
      by (simp add: Do_def init_def Let_def split: option.splits)
    then show ?thesis ..
  qed
qed

text \<open>
  C9. Two formatters that differ in \<open>QuoteCharacter\<close> only give the same result on every
  entry, bytes and error or panic alike, and leave the entry in the same state: the
  character is stored by \<open>init\<close> and read by nothing that writes.
\<close>

theorem Format_ignores_QuoteCharacter:
  "fst (Format env rangeKeys (f\<lparr>QuoteCharacter := q\<rparr>) entry) = fst (Format env rangeKeys f entry) \<and>
   snd (snd (Format env rangeKeys (f\<lparr>QuoteCharacter := q\<rparr>) entry)) =
     snd (snd (Format env rangeKeys f entry))"
proof -
  obtain q' where
    "Do (f\<lparr>QuoteCharacter := q\<rparr>) (\<lambda>f. init env f (entry\<lparr>Data := prefixFieldClashes (Data entry)\<rparr>)) =
     (Do f (\<lambda>f. init env f (entry\<lparr>Data := prefixFieldClashes (Data entry)\<rparr>)))\<lparr>QuoteCharacter := q'\<rparr>"
    using Do_init_QuoteCharacter by blast
  then show ?thesis
    by (simp add: Format_def Let_def split: sum.splits)
qed

subsection \<open>The order of the fields\<close>

lemma Format_plain_fields:
  assumes "\<not> isColored (fst (snd (Format env rangeKeys f entry)))"
  shows "\<exists>head. fst (Format env rangeKeys f entry) =
     Inr (head @
          concat (map (\<lambda>k. appendKeyValue env (fst (snd (Format env rangeKeys f entry))) [] k
                             (index (Data (snd (snd (Format env rangeKeys f entry)))) k))
                   (if \<not> DisableSorting f then sort rangeKeys else rangeKeys)) @
          [CHR 0x0A], None)"
proof -
  define f1 where "f1 = Do f (\<lambda>f. init env f (entry\<lparr>Data := prefixFieldClashes (Data entry)\<rparr>))"
  have plain: "\<not> isColored f1"
    using assms by (simp add: Format_formatter f1_def)
  have "\<exists>head. fst (Format env rangeKeys f entry) =
     Inr (head @
          concat (map (\<lambda>k. appendKeyValue env f1 [] k (index (prefixFieldClashes (Data entry)) k))
                   (if \<not> DisableSorting f then sort rangeKeys else rangeKeys)) @
          [CHR 0x0A], None)"
    using plain unfolding Format_def Let_def f1_def [symmetric]
    by (simp add: appendFields_concat)
  then show ?thesis
    by (simp add: Format_formatter Format_Data f1_def)
qed

lemma Format_colored_fields:
  assumes "isColored (fst (snd (Format env rangeKeys f entry)))"
    and "colorScheme (fst (snd (Format env rangeKeys f entry))) = Some cs"
  shows "\<exists>head. fst (Format env rangeKeys f entry) =
     Inr (head @
          concat (map (\<lambda>k. '' '' @ SprintFunc env (levelColorOf cs (Level entry)) @ k @
                             Reset env @ ''='' @
                             fmtPlusV env (index (Data (snd (snd (Format env rangeKeys f entry)))) k))
                   (filter (\<lambda>k. k \<noteq> ''prefix'')
                      (if \<not> DisableSorting f then sort rangeKeys else rangeKeys))) @
          [CHR 0x0A], None)"
proof -
  define f1 where "f1 = Do f (\<lambda>f. init env f (entry\<lparr>Data := prefixFieldClashes (Data entry)\<rparr>))"
  have colored: "isColored f1" and scheme: "colorScheme f1 = Some cs"
    using assms by (simp_all add: Format_formatter f1_def)
  have "\<exists>head. fst (Format env rangeKeys f entry) =
     Inr (head @
          concat (map (\<lambda>k. '' '' @ SprintFunc env (levelColorOf cs (Level entry)) @ k @
                             Reset env @ ''='' @
                             fmtPlusV env (index (prefixFieldClashes (Data entry)) k))
                   (filter (\<lambda>k. k \<noteq> ''prefix'')
                      (if \<not> DisableSorting f then sort rangeKeys else rangeKeys))) @
          [CHR 0x0A], None)"
    using colored scheme unfolding Format_def Let_def f1_def [symmetric]
    by (simp add: printColored_def printColoredFields_concat Let_def split: prod.splits)
  then show ?thesis
    by (simp add: Format_Data)
qed

text \<open>
  C5. With \<open>DisableSorting\<close> off, and \<open>rangeKeys\<close> any order in which the map may yield its
  keys, the output ends with one segment for each field key, in strictly ascending
  order of the keys, and then the line feed: the segments that \<open>appendKeyValue\<close> writes on
  the plain path, and on the colorized path (with a color scheme set: without one the
  call panics and there is no output) the \<^verbatim>\<open>key=value\<close> segments of every key but
  \<^verbatim>\<open>prefix\<close>. The result does not depend on the order the map yields its keys in.
\<close>

theorem sorted_field_order:
  assumes "\<not> DisableSorting f" and "distinct rangeKeys" and "set rangeKeys = dom (Data entry)"
  shows "sorted_wrt (<) (sorted_list_of_set (dom (Data entry))) \<and>
    set (sorted_list_of_set (dom (Data entry))) = dom (Data entry) \<and>
    (\<not> isColored (fst (snd (Format env rangeKeys f entry))) \<longrightarrow>
       (\<exists>head. fst (Format env rangeKeys f entry) =
          Inr (head @
               concat (map (\<lambda>k. appendKeyValue env (fst (snd (Format env rangeKeys f entry))) [] k
                                  (index (Data (snd (snd (Format env rangeKeys f entry)))) k))
                        (sorted_list_of_set (dom (Data entry)))) @
               [CHR 0x0A], None))) \<and>
    (\<forall>cs. isColored (fst (snd (Format env rangeKeys f entry))) \<and>
          colorScheme (fst (snd (Format env rangeKeys f entry))) = Some cs \<longrightarrow>
       (\<exists>head. fst (Format env rangeKeys f entry) =
          Inr (head @
               concat (map (\<lambda>k. '' '' @ SprintFunc env (levelColorOf cs (Level entry)) @ k @
                                  Reset env @ ''='' @
                                  fmtPlusV env
                                    (index (Data (snd (snd (Format env rangeKeys f entry)))) k))
                        (filter (\<lambda>k. k \<noteq> ''prefix'') (sorted_list_of_set (dom (Data entry))))) @
               [CHR 0x0A], None))) \<and>
    (\<forall>otherOrder. distinct otherOrder \<and> set otherOrder = dom (Data entry) \<longrightarrow>
       Format env otherOrder f entry = Format env rangeKeys f entry)"
proof -
  let ?sk = "sorted_list_of_set (dom (Data entry))"
  have fin: "finite (dom (Data entry))"
    using assms(3) [symmetric] by simp
  have keys: "(if \<not> DisableSorting f then sort rangeKeys else rangeKeys) = ?sk"
    using assms by (simp add: sort_range_keys)
  have ascending: "sorted_wrt (<) ?sk"
    by (rule sorted_list_of_set.strict_sorted_key_list_of_set)
  have same: "Format env otherOrder f entry = Format env rangeKeys f entry"
    if "distinct otherOrder" and "set otherOrder = dom (Data entry)" for otherOrder
  proof -
    have "sort otherOrder = sort rangeKeys"
      using that assms by (simp add: sort_range_keys)
    then show ?thesis
      using assms(1) by (simp add: Format_def)
  qed
  show ?thesis
    using ascending fin same keys
      Format_plain_fields [of env rangeKeys f entry]
      Format_colored_fields [of env rangeKeys f entry]
    by simp
qed

theorem sorted_field_order_witness:
  "fst (Format exampleEnv [''zeta'', ''alpha''] zeroFormatter
          ((exampleEntry InfoLevel ''hello'')
             \<lparr>Data := [''zeta'' \<mapsto> OtherValue 1, ''alpha'' \<mapsto> StringValue ''x y'']\<rparr>)) =
   fst (Format exampleEnv [''alpha'', ''zeta''] zeroFormatter
          ((exampleEntry InfoLevel ''hello'')
             \<lparr>Data := [''zeta'' \<mapsto> OtherValue 1, ''alpha'' \<mapsto> StringValue ''x y'']\<rparr>)) \<and>
   fst (Format exampleEnv [''zeta'', ''alpha''] zeroFormatter
          ((exampleEntry InfoLevel ''hello'')
             \<lparr>Data := [''zeta'' \<mapsto> OtherValue 1, ''alpha'' \<mapsto> StringValue ''x y'']\<rparr>)) =
     Inr (''time=2016-11-01T12:00:00Z level='' @ Quote exampleEnv ''info'' @ '' msg='' @
          Quote exampleEnv ''hello'' @ '' alpha=x y zeta=1 '' @ [CHR 0x0A], None)"
proof -
  let ?e = "(exampleEntry InfoLevel ''hello'')
             \<lparr>Data := [''zeta'' \<mapsto> OtherValue 1, ''alpha'' \<mapsto> StringValue ''x y'']\<rparr>"
  have h1: "\<not> DisableSorting zeroFormatter"
    by (simp add: zeroFormatter_def)
  have h2: "distinct [''zeta'', ''alpha'']"
    by simp
  have h3: "set [''zeta'', ''alpha''] = dom (Data ?e)"
    by auto
  have h4: "distinct [''alpha'', ''zeta''] \<and> set [''alpha'', ''zeta''] = dom (Data ?e)"
    by auto
  have "Format exampleEnv [''alpha'', ''zeta''] zeroFormatter ?e =
        Format exampleEnv [''zeta'', ''alpha''] zeroFormatter ?e"
    using sorted_field_order [OF h1 h2 h3, of exampleEnv] h4 by blast
  moreover have "fst (Format exampleEnv [''zeta'', ''alpha''] zeroFormatter ?e) =
     Inr (''time=2016-11-01T12:00:00Z level='' @ Quote exampleEnv ''info'' @ '' msg='' @
          Quote exampleEnv ''hello'' @ '' alpha=x y zeta=1 '' @ [CHR 0x0A], None)"
    by code_simp
  ultimately show ?thesis
    by simp
qed

subsection \<open>The level text\<close>

lemma init_LevelString [simp]:
  "init (env\<lparr>LevelString := spelling\<rparr>) f e = init env f e"
  by (simp add: init_def Let_def split: option.splits)

lemma fmtPlusV_LevelString [simp]:
  "fmtPlusV (env\<lparr>LevelString := spelling\<rparr>) v = fmtPlusV env v"
  by (simp add: fmtPlusV_def split: Value.splits)

lemma fmtSprint_LevelString [simp]:
  "fmtSprint (env\<lparr>LevelString := spelling\<rparr>) v = fmtSprint env v"
  by (simp add: fmtSprint_def split: Value.splits)

lemma printColoredFields_LevelString [simp]:
  "printColoredFields (env\<lparr>LevelString := spelling\<rparr>) c data b keys =
     printColoredFields env c data b keys"
  by (induction keys arbitrary: b) simp_all

lemma printColored_warn_LevelString:
  "Level e = WarnLevel \<Longrightarrow>
   printColored (env\<lparr>LevelString := spelling\<rparr>) f b e keys tf = printColored env f b e keys tf"
  by (simp add: printColored_def levelTextOf_def padLeft5_def miniTS_def
      cong: if_cong option.case_cong)

text \<open>
  The bytes that \<open>Format\<close> returns for a Warn-level entry, on either path, written out.
\<close>

lemma Format_colored_warn:
  assumes "Level entry = WarnLevel"
    and "isColored (fst (snd (Format env rangeKeys f entry)))"
    and "colorScheme (fst (snd (Format env rangeKeys f entry))) = Some cs"
  shows "fst (Format env rangeKeys f entry) =
    (let f1 = fst (snd (Format env rangeKeys f entry));
         data1 = Data (snd (snd (Format env rangeKeys f entry)));
         keys = (if \<not> DisableSorting f then sort rangeKeys else rangeKeys);
         b = (case Buffer entry of Some buf \<Rightarrow> buf | None \<Rightarrow> []);
         timestampFormat =
           (if TimestampFormat f1 = [] then DefaultTimestampFormat env else TimestampFormat f1);
         (prefix, message) =
           (case data1 ''prefix'' of
              Some prefixValue \<Rightarrow>
                ('' '' @ PrefixColor cs (fmtSprint env prefixValue @ '':''), Message entry)
            | None \<Rightarrow>
                (if length (fst (extractPrefix (Message entry))) > 0
                 then ('' '' @ PrefixColor cs (fst (extractPrefix (Message entry)) @ '':''),
                       snd (extractPrefix (Message entry)))
                 else ([], Message entry)));
         formatted =
           (if SpacePadding f1 \<noteq> 0 then SprintfPadded env (SpacePadding f1) message
            else message);
         head =
           (if DisableTimestamp f1
            then padLeft5 env (WarnLevelColor cs ''WARN'') @ prefix @ '' '' @ formatted
            else LightBlack env @ ''['' @
                 (if ShortTimestamp f1 then fmt04d (miniTS env)
                  else TimeFormat env (Time entry) timestampFormat) @
                 '']'' @ Reset env @ '' '' @
                 SprintFunc env (WarnLevelColor cs) @ padLeft5 env ''WARN'' @ Reset env @
                 prefix @ '' '' @ formatted)
     in Inr (printColoredFields env (WarnLevelColor cs) data1 (b @ head) keys @ [CHR 0x0A],
             None))"
proof -
  define f1 where "f1 = Do f (\<lambda>f. init env f (entry\<lparr>Data := prefixFieldClashes (Data entry)\<rparr>))"
  have colored: "isColored f1" and scheme: "colorScheme f1 = Some cs"
    using assms(2,3) by (simp_all add: Format_formatter f1_def)
  show ?thesis
    unfolding Format_formatter Format_Data f1_def [symmetric]
    unfolding Format_def Let_def f1_def [symmetric]
    using colored scheme assms(1)
    by (cases "prefixFieldClashes (Data entry) ''prefix''")
      (simp_all add: printColored_def levelTextOf_def levelColorOf_def Let_def case_prod_beta)
qed

lemma Format_plain_warn:
  assumes "Level entry = WarnLevel"
    and "\<not> isColored (fst (snd (Format env rangeKeys f entry)))"
  shows "fst (Format env rangeKeys f entry) =
    (let f1 = fst (snd (Format env rangeKeys f entry));
         data1 = Data (snd (snd (Format env rangeKeys f entry)));
         keys = (if \<not> DisableSorting f then sort rangeKeys else rangeKeys);
         b = (case Buffer entry of Some buf \<Rightarrow> buf | None \<Rightarrow> []);
         timestampFormat =
           (if TimestampFormat f1 = [] then DefaultTimestampFormat env else TimestampFormat f1);
         b1 = (if \<not> DisableTimestamp f1
               then appendKeyValue env f1 b ''time''
                      (StringValue (TimeFormat env (Time entry) timestampFormat))
               else b);
         b2 = b1 @ ''level='' @
              (if needsQuoting f1 (LevelString env WarnLevel) then LevelString env WarnLevel
               else Quote env (LevelString env WarnLevel)) @ '' '';
         b3 = (if Message entry \<noteq> []
               then appendKeyValue env f1 b2 ''msg'' (StringValue (Message entry))
               else b2)
     in Inr (appendFields env f1 data1 b3 keys @ [CHR 0x0A], None))"
proof -
  define f1 where "f1 = Do f (\<lambda>f. init env f (entry\<lparr>Data := prefixFieldClashes (Data entry)\<rparr>))"
  have plain: "\<not> isColored f1"
    using assms(2) by (simp add: Format_formatter f1_def)
  show ?thesis
    unfolding Format_formatter Format_Data f1_def [symmetric]
    unfolding Format_def Let_def f1_def [symmetric]
    using plain assms(1)
    by (simp add: appendKeyValue_def Let_def)
qed

text \<open>
  C7, as the code has it. For a Warn-level entry the colorized path writes the level
  text \<^verbatim>\<open>WARN\<close>, padded to five: the returned bytes are those written out below, in which
  the framework's \<^verbatim>\<open>Level.String\<close> does not occur, and they stay the same whatever it
  spells. The plain path writes \<^verbatim>\<open>level=\<close> followed by the framework's own name for the
  level, raw or in the \<^verbatim>\<open>%q\<close> form as \<open>needsQuoting\<close> decides.
\<close>

theorem warn_level_text_by_path:
  assumes "Level entry = WarnLevel"
  shows "levelTextOf env (Level entry) = ''WARN'' \<and>
    (isColored (fst (snd (Format env rangeKeys f entry))) \<longrightarrow>
       fst (Format (env\<lparr>LevelString := spelling\<rparr>) rangeKeys f entry) =
         fst (Format env rangeKeys f entry)) \<and>
    (\<forall>cs. isColored (fst (snd (Format env rangeKeys f entry))) \<and>
          colorScheme (fst (snd (Format env rangeKeys f entry))) = Some cs \<longrightarrow>
       fst (Format env rangeKeys f entry) =
         (let f1 = fst (snd (Format env rangeKeys f entry));
              data1 = Data (snd (snd (Format env rangeKeys f entry)));
              keys = (if \<not> DisableSorting f then sort rangeKeys else rangeKeys);
              b = (case Buffer entry of Some buf \<Rightarrow> buf | None \<Rightarrow> []);
              timestampFormat =
                (if TimestampFormat f1 = [] then DefaultTimestampFormat env
                 else TimestampFormat f1);
              (prefix, message) =
                (case data1 ''prefix'' of
                   Some prefixValue \<Rightarrow>
                     ('' '' @ PrefixColor cs (fmtSprint env prefixValue @ '':''), Message entry)
                 | None \<Rightarrow>
                     (if length (fst (extractPrefix (Message entry))) > 0
                      then ('' '' @ PrefixColor cs (fst (extractPrefix (Message entry)) @ '':''),
                            snd (extractPrefix (Message entry)))
                      else ([], Message entry)));
              formatted =
                (if SpacePadding f1 \<noteq> 0 then SprintfPadded env (SpacePadding f1) message
                 else message);
              head =
                (if DisableTimestamp f1
                 then padLeft5 env (WarnLevelColor cs ''WARN'') @ prefix @ '' '' @ formatted
                 else LightBlack env @ ''['' @
                      (if ShortTimestamp f1 then fmt04d (miniTS env)
                       else TimeFormat env (Time entry) timestampFormat) @
                      '']'' @ Reset env @ '' '' @
                      SprintFunc env (WarnLevelColor cs) @ padLeft5 env ''WARN'' @ Reset env @
                      prefix @ '' '' @ formatted)
          in Inr (printColoredFields env (WarnLevelColor cs) data1 (b @ head) keys @ [CHR 0x0A],
                  None))) \<and>
    (\<not> isColored (fst (snd (Format env rangeKeys f entry))) \<longrightarrow>
       fst (Format env rangeKeys f entry) =
         (let f1 = fst (snd (Format env rangeKeys f entry));
              data1 = Data (snd (snd (Format env rangeKeys f entry)));
              keys = (if \<not> DisableSorting f then sort rangeKeys else rangeKeys);
              b = (case Buffer entry of Some buf \<Rightarrow> buf | None \<Rightarrow> []);
              timestampFormat =
                (if TimestampFormat f1 = [] then DefaultTimestampFormat env
                 else TimestampFormat f1);
              b1 = (if \<not> DisableTimestamp f1
                    then appendKeyValue env f1 b ''time''
                           (StringValue (TimeFormat env (Time entry) timestampFormat))
                    else b);
              b2 = b1 @ ''level='' @
                   (if needsQuoting f1 (LevelString env WarnLevel) then LevelString env WarnLevel
                    else Quote env (LevelString env WarnLevel)) @ '' '';
              b3 = (if Message entry \<noteq> []
                    then appendKeyValue env f1 b2 ''msg'' (StringValue (Message entry))
                    else b2)
          in Inr (appendFields env f1 data1 b3 keys @ [CHR 0x0A], None)))"
proof (intro conjI impI allI)
  show "levelTextOf env (Level entry) = ''WARN''"
    using assms by (simp add: levelTextOf_def)
next
  assume "isColored (fst (snd (Format env rangeKeys f entry)))"
  then show "fst (Format (env\<lparr>LevelString := spelling\<rparr>) rangeKeys f entry) =
      fst (Format env rangeKeys f entry)"
    unfolding Format_formatter
    by (simp add: Format_def Let_def printColored_warn_LevelString assms)
next
  fix cs
  assume "isColored (fst (snd (Format env rangeKeys f entry))) \<and>
          colorScheme (fst (snd (Format env rangeKeys f entry))) = Some cs"
  then show "fst (Format env rangeKeys f entry) =
         (let f1 = fst (snd (Format env rangeKeys f entry));
              data1 = Data (snd (snd (Format env rangeKeys f entry)));
              keys = (if \<not> DisableSorting f then sort rangeKeys else rangeKeys);
              b = (case Buffer entry of Some buf \<Rightarrow> buf | None \<Rightarrow> []);
              timestampFormat =
                (if TimestampFormat f1 = [] then DefaultTimestampFormat env
                 else TimestampFormat f1);
              (prefix, message) =
                (case data1 ''prefix'' of
                   Some prefixValue \<Rightarrow>
                     ('' '' @ PrefixColor cs (fmtSprint env prefixValue @ '':''), Message entry)
                 | None \<Rightarrow>
                     (if length (fst (extractPrefix (Message entry))) > 0
                      then ('' '' @ PrefixColor cs (fst (extractPrefix (Message entry)) @ '':''),
                            snd (extractPrefix (Message entry)))
                      else ([], Message entry)));
              formatted =
                (if SpacePadding f1 \<noteq> 0 then SprintfPadded env (SpacePadding f1) message
                 else message);
              head =
                (if DisableTimestamp f1
                 then padLeft5 env (WarnLevelColor cs ''WARN'') @ prefix @ '' '' @ formatted
                 else LightBlack env @ ''['' @
                      (if ShortTimestamp f1 then fmt04d (miniTS env)
                       else TimeFormat env (Time entry) timestampFormat) @
                      '']'' @ Reset env @ '' '' @
                      SprintFunc env (WarnLevelColor cs) @ padLeft5 env ''WARN'' @ Reset env @
                      prefix @ '' '' @ formatted)
          in Inr (printColoredFields env (WarnLevelColor cs) data1 (b @ head) keys @ [CHR 0x0A],
                  None))"
    using Format_colored_warn [OF assms, of env rangeKeys f cs] by blast
next
  assume "\<not> isColored (fst (snd (Format env rangeKeys f entry)))"
  then show "fst (Format env rangeKeys f entry) =
         (let f1 = fst (snd (Format env rangeKeys f entry));
              data1 = Data (snd (snd (Format env rangeKeys f entry)));
              keys = (if \<not> DisableSorting f then sort rangeKeys else rangeKeys);
              b = (case Buffer entry of Some buf \<Rightarrow> buf | None \<Rightarrow> []);
              timestampFormat =
                (if TimestampFormat f1 = [] then DefaultTimestampFormat env
                 else TimestampFormat f1);
              b1 = (if \<not> DisableTimestamp f1
                    then appendKeyValue env f1 b ''time''
                           (StringValue (TimeFormat env (Time entry) timestampFormat))
                    else b);
              b2 = b1 @ ''level='' @
                   (if needsQuoting f1 (LevelString env WarnLevel) then LevelString env WarnLevel
                    else Quote env (LevelString env WarnLevel)) @ '' '';
              b3 = (if Message entry \<noteq> []
                    then appendKeyValue env f1 b2 ''msg'' (StringValue (Message entry))
                    else b2)
          in Inr (appendFields env f1 data1 b3 keys @ [CHR 0x0A], None))"
    by (rule Format_plain_warn [OF assms])
qed

theorem warn_level_text_by_path_witness:
  "levelTextOf exampleEnv (Level (exampleEntry WarnLevel ''hello'')) = ''WARN'' \<and>
   fst (Format (exampleEnv\<lparr>LevelString := (\<lambda>level. ''warn'')\<rparr>) []
          (SetColorScheme exampleEnv (zeroFormatter\<lparr>ForceColors := True\<rparr>) defaultColorScheme)
          (exampleEntry WarnLevel ''hello'')) =
   fst (Format exampleEnv []
          (SetColorScheme exampleEnv (zeroFormatter\<lparr>ForceColors := True\<rparr>) defaultColorScheme)
          (exampleEntry WarnLevel ''hello'')) \<and>
   fst (Format exampleEnv []
          (SetColorScheme exampleEnv (zeroFormatter\<lparr>ForceColors := True\<rparr>) defaultColorScheme)
          (exampleEntry WarnLevel ''hello'')) =
     Inr (LightBlack exampleEnv @ ''[2016-11-01T12:00:00Z]'' @ Reset exampleEnv @ '' '' @
          SprintFunc exampleEnv id @ '' WARN'' @ Reset exampleEnv @ '' hello'' @ [CHR 0x0A], None) \<and>
   fst (Format exampleEnv [] zeroFormatter (exampleEntry WarnLevel ''hello'')) =
     Inr (''time=2016-11-01T12:00:00Z level='' @ Quote exampleEnv (LevelString exampleEnv WarnLevel) @
          '' msg='' @ Quote exampleEnv ''hello'' @ '' '' @ [CHR 0x0A], None)"
proof -
  let ?e = "exampleEntry WarnLevel ''hello''"
  let ?cf = "SetColorScheme exampleEnv (zeroFormatter\<lparr>ForceColors := True\<rparr>) defaultColorScheme"
  have h1: "Level ?e = WarnLevel"
    by (simp add: exampleEntry_def)
  have h2: "isColored (fst (snd (Format exampleEnv [] ?cf ?e)))"
    by code_simp
  note colored = warn_level_text_by_path [OF h1, of exampleEnv "[]" ?cf "\<lambda>level. ''warn''"]
  have warn: "levelTextOf exampleEnv (Level ?e) = ''WARN''"
    using colored by (rule conjunct1)
  have same: "fst (Format (exampleEnv\<lparr>LevelString := (\<lambda>level. ''warn'')\<rparr>) [] ?cf ?e) =
      fst (Format exampleEnv [] ?cf ?e)"
    using colored [THEN conjunct2, THEN conjunct1] h2 by (rule mp)
  have bytes: "fst (Format exampleEnv [] ?cf ?e) =
     Inr (LightBlack exampleEnv @ ''[2016-11-01T12:00:00Z]'' @ Reset exampleEnv @ '' '' @
          SprintFunc exampleEnv id @ '' WARN'' @ Reset exampleEnv @ '' hello'' @ [CHR 0x0A], None)"
    by code_simp
  have "fst (Format exampleEnv [] zeroFormatter ?e) =
     Inr (''time=2016-11-01T12:00:00Z level='' @ Quote exampleEnv (LevelString exampleEnv WarnLevel) @
          '' msg='' @ Quote exampleEnv ''hello'' @ '' '' @ [CHR 0x0A], None)"
    by code_simp
  with warn same bytes show ?thesis
    by simp
qed

text \<open>
  C7, as it is stated, fails on the plain path: a Warn-level entry is written with the
  framework's own spelling, \<^verbatim>\<open>level="warning"\<close> under logrus, and \<^verbatim>\<open>WARN\<close> occurs nowhere
  in the line.
\<close>

theorem plain_warn_level_text_counterexample:
  "Level (exampleEntry WarnLevel ''hello'') = WarnLevel \<and>
   fst (Format exampleEnv [] zeroFormatter (exampleEntry WarnLevel ''hello'')) =
     Inr (''time=2016-11-01T12:00:00Z level='' @ Quote exampleEnv ''warning'' @ '' msg='' @
          Quote exampleEnv ''hello'' @ '' '' @ [CHR 0x0A], None) \<and>
   \<not> sublist ''WARN''
       (''time=2016-11-01T12:00:00Z level='' @ Quote exampleEnv ''warning'' @ '' msg='' @
          Quote exampleEnv ''hello'' @ '' '' @ [CHR 0x0A])"
  by code_simp

subsection \<open>Where the code departs from its own description\<close>

text \<open>
  C1. The keys are collected before \<open>prefixFieldClashes\<close> runs, so the copy under
  \<^verbatim>\<open>fields.level\<close> is in the map after the call and not in the line: for the field
  \<^verbatim>\<open>level=1\<close> the plain path writes the entry's level and then \<^verbatim>\<open>level=1\<close>, and no
  \<^verbatim>\<open>fields.level=\<close> segment.
\<close>

theorem fields_level_not_emitted:
  "fst (Format exampleEnv [''level''] zeroFormatter
          ((exampleEntry InfoLevel ''hello'')\<lparr>Data := [''level'' \<mapsto> OtherValue 1]\<rparr>)) =
     Inr (''time=2016-11-01T12:00:00Z level='' @ Quote exampleEnv ''info'' @ '' msg='' @
          Quote exampleEnv ''hello'' @ '' level=1 '' @ [CHR 0x0A], None) \<and>
   \<not> sublist ''fields.level=''
       (''time=2016-11-01T12:00:00Z level='' @ Quote exampleEnv ''info'' @ '' msg='' @
          Quote exampleEnv ''hello'' @ '' level=1 '' @ [CHR 0x0A]) \<and>
   Data (snd (snd (Format exampleEnv [''level''] zeroFormatter
          ((exampleEntry InfoLevel ''hello'')\<lparr>Data := [''level'' \<mapsto> OtherValue 1]\<rparr>))))
     ''fields.level'' = Some (OtherValue 1)"
  by code_simp

lemma needsQuoting_FullTimestamp [simp]:
  "needsQuoting (f\<lparr>FullTimestamp := x\<rparr>) s = needsQuoting f s"
  by (simp add: needsQuoting_def)

lemma appendKeyValue_FullTimestamp [simp]:
  "appendKeyValue env (f\<lparr>FullTimestamp := x\<rparr>) b key v = appendKeyValue env f b key v"
  by (simp add: appendKeyValue_def Let_def split: Value.splits)

lemma appendFields_FullTimestamp [simp]:
  "appendFields env (f\<lparr>FullTimestamp := x\<rparr>) data b keys = appendFields env f data b keys"
  by (induction keys arbitrary: b) simp_all

lemma printColored_FullTimestamp [simp]:
  "printColored env (f\<lparr>FullTimestamp := x\<rparr>) b e keys tf = printColored env f b e keys tf"
  by (simp add: printColored_def cong: if_cong option.case_cong)

lemma isColored_FullTimestamp [simp]:
  "isColored (f\<lparr>FullTimestamp := x\<rparr>) = isColored f"
  by (simp add: isColored_def)

lemma Do_init_FullTimestamp:
  "Do (f\<lparr>FullTimestamp := x\<rparr>) (\<lambda>f. init env f e) =
     (Do f (\<lambda>f. init env f e))\<lparr>FullTimestamp := x\<rparr>"
  by (simp add: Do_def init_def Let_def split: option.splits)

lemma Format_FullTimestamp:
  "fst (Format env rangeKeys (f\<lparr>FullTimestamp := x\<rparr>) entry) = fst (Format env rangeKeys f entry)"
  by (simp add: Format_def Let_def Do_init_FullTimestamp split: sum.splits)

text \<open>
  C4. \<open>FullTimestamp\<close> has no effect on what \<open>Format\<close> returns: \<open>printColored\<close> chooses
  between the counter and the full timestamp by \<open>ShortTimestamp\<close>. With both flags off
  the colorized line carries the full timestamp, and with both on it carries the counter
  \<^verbatim>\<open>[0003]\<close> (3.5 seconds after the start).
\<close>

theorem FullTimestamp_not_consulted:
  "(\<forall>x. fst (Format env rangeKeys (f\<lparr>FullTimestamp := x\<rparr>) entry) =
        fst (Format env rangeKeys f entry)) \<and>
   fst (Format exampleEnv []
          (SetColorScheme exampleEnv
             (zeroFormatter\<lparr>ForceColors := True, FullTimestamp := False\<rparr>) defaultColorScheme)
          (exampleEntry InfoLevel ''hello'')) =
     Inr (LightBlack exampleEnv @ ''[2016-11-01T12:00:00Z]'' @ Reset exampleEnv @ '' '' @
          SprintFunc exampleEnv id @ '' INFO'' @ Reset exampleEnv @ '' hello'' @ [CHR 0x0A], None) \<and>
   fst (Format exampleEnv []
          (SetColorScheme exampleEnv
             (zeroFormatter\<lparr>ForceColors := True, FullTimestamp := True, ShortTimestamp := True\<rparr>)
             defaultColorScheme)
          (exampleEntry InfoLevel ''hello'')) =
     Inr (LightBlack exampleEnv @ ''[0003]'' @ Reset exampleEnv @ '' '' @
          SprintFunc exampleEnv id @ '' INFO'' @ Reset exampleEnv @ '' hello'' @ [CHR 0x0A], None)"
proof -
  have "fst (Format exampleEnv []
          (SetColorScheme exampleEnv
             (zeroFormatter\<lparr>ForceColors := True, FullTimestamp := False\<rparr>) defaultColorScheme)
          (exampleEntry InfoLevel ''hello'')) =
     Inr (LightBlack exampleEnv @ ''[2016-11-01T12:00:00Z]'' @ Reset exampleEnv @ '' '' @
          SprintFunc exampleEnv id @ '' INFO'' @ Reset exampleEnv @ '' hello'' @ [CHR 0x0A], None)"
    by code_simp
  moreover have "fst (Format exampleEnv []
          (SetColorScheme exampleEnv
             (zeroFormatter\<lparr>ForceColors := True, FullTimestamp := True, ShortTimestamp := True\<rparr>)
             defaultColorScheme)
          (exampleEntry InfoLevel ''hello'')) =
     Inr (LightBlack exampleEnv @ ''[0003]'' @ Reset exampleEnv @ '' '' @
          SprintFunc exampleEnv id @ '' INFO'' @ Reset exampleEnv @ '' hello'' @ [CHR 0x0A], None)"
    by code_simp
  ultimately show ?thesis
    by (simp only: Format_FullTimestamp) simp
qed

text \<open>
  C8. \<open>Format\<close> panics exactly when it takes the colorized path with no color scheme set;
  in every other case it returns bytes and the nil error. The formatter
  \<^verbatim>\<open>&TextFormatter{ForceColors: true}\<close> is such a case.
\<close>

theorem nil_colorScheme_panics:
  "(case fst (Format env rangeKeys f entry) of
      Inl p \<Rightarrow> isColored (fst (snd (Format env rangeKeys f entry))) \<and> colorScheme f = None
    | Inr (out, err) \<Rightarrow>
        err = None \<and>
        \<not> (isColored (fst (snd (Format env rangeKeys f entry))) \<and> colorScheme f = None)) \<and>
   fst (Format exampleEnv [] (zeroFormatter\<lparr>ForceColors := True\<rparr>)
          (exampleEntry InfoLevel ''hello'')) = Inl NilPointerDereference"
proof -
  have "fst (Format exampleEnv [] (zeroFormatter\<lparr>ForceColors := True\<rparr>)
          (exampleEntry InfoLevel ''hello'')) = Inl NilPointerDereference"
    by code_simp
  moreover have "case fst (Format env rangeKeys f entry) of
      Inl p \<Rightarrow> isColored (fst (snd (Format env rangeKeys f entry))) \<and> colorScheme f = None
    | Inr (out, err) \<Rightarrow>
        err = None \<and>
        \<not> (isColored (fst (snd (Format env rangeKeys f entry))) \<and> colorScheme f = None)"
    unfolding Format_formatter
    using Do_init_colorScheme [of f env "entry\<lparr>Data := prefixFieldClashes (Data entry)\<rparr>"]
    by (auto simp: Format_def Let_def printColored_def split: sum.splits option.splits prod.splits)
  ultimately show ?thesis
    by simp
qed

end
